theory Spec2Isabelle
  imports Main "HOL-Library.Word"
begin

section \<open>JavaScript strings\<close>

text \<open>
  A JavaScript string is a sequence of UTF-16 code units. The text buffers of the
  translator hold arbitrary user text (Japanese, Russian, ...), so a string is a list of
  16-bit words. \<open>js\<close> writes an ASCII literal of the source as such a list; a
  character of the source beyond ASCII is written as its code unit.
\<close>

type_synonym jsstring = "16 word list"

definition js :: "string \<Rightarrow> jsstring" where
  "js s = map of_char s"

text \<open>
  \<open>String.prototype.trim\<close> removes the code units of WhiteSpace and LineTerminator
  (ECMAScript) from both ends.
\<close>

definition isWhiteSpace :: "16 word \<Rightarrow> bool" where
  "isWhiteSpace c =
     (c = 0x0009 \<or> c = 0x000A \<or> c = 0x000B \<or> c = 0x000C \<or> c = 0x000D \<or> c = 0x0020
      \<or> c = 0x00A0 \<or> c = 0x1680 \<or> (0x2000 \<le> c \<and> c \<le> 0x200A) \<or> c = 0x2028
      \<or> c = 0x2029 \<or> c = 0x202F \<or> c = 0x205F \<or> c = 0x3000 \<or> c = 0xFEFF)"

definition trim :: "jsstring \<Rightarrow> jsstring" where
  "trim s = rev (dropWhile isWhiteSpace (rev (dropWhile isWhiteSpace s)))"

section \<open>The supported languages (App.tsx)\<close>

text \<open>
  \<open>supportedLanguages\<close> is an object literal from language code to display name.
  The type \<open>Language\<close> of types.ts is a union of the twelve codes; it is erased at run
  time, where a language is a string.
\<close>

definition supportedLanguages :: "(jsstring \<times> jsstring) list" where
  "supportedLanguages =
     [(js ''en'', js ''Ingl'' @ [0xEA] @ js ''s''),
      (js ''pt'', js ''Portugu'' @ [0xEA] @ js ''s (BR)''),
      (js ''es'', js ''Espanhol''),
      (js ''fr'', js ''Franc'' @ [0xEA] @ js ''s''),
      (js ''de'', js ''Alem'' @ [0xE3] @ js ''o''),
      (js ''it'', js ''Italiano''),
      (js ''ja'', js ''Japon'' @ [0xEA] @ js ''s''),
      (js ''ru'', js ''Russo''),
      (js ''zh'', js ''Chin'' @ [0xEA] @ js ''s (Mandarim)''),
      (js ''hi'', js ''Hindi''),
      (js ''ar'', [0xC1] @ js ''rabe''),
      (js ''ko'', js ''Coreano'')]"

definition languageCodes :: "jsstring list" where
  "languageCodes = map fst supportedLanguages"

text \<open>
  The object literal inherits from \<open>Object.prototype\<close>, whose properties are these
  (ECMAScript, with the legacy accessors of its Annex B that every browser has).
\<close>

definition objectPrototypeKeys :: "jsstring list" where
  "objectPrototypeKeys =
     [js ''constructor'', js ''hasOwnProperty'', js ''isPrototypeOf'',
      js ''propertyIsEnumerable'', js ''toLocaleString'', js ''toString'', js ''valueOf'',
      js ''__proto__'', js ''__defineGetter__'', js ''__defineSetter__'',
      js ''__lookupGetter__'', js ''__lookupSetter__'']"

text \<open>
  \<open>const isSupported = (lang: string): lang is Language => lang in supportedLanguages\<close>.
  The operator \<open>in\<close> looks for the property on the object and then along its
  prototype chain.
\<close>

definition isSupported :: "jsstring \<Rightarrow> bool" where
  "isSupported lang = (lang \<in> set languageCodes \<or> lang \<in> set objectPrototypeKeys)"

section \<open>The state of the App component\<close>

text \<open>
  The state variables of \<open>useState\<close> and the ref \<open>previousSourceLang\<close>, shared by
  the two variants of App.tsx. The variants differ in how they hold the error.
\<close>

record session =
  sourceLang :: jsstring
  targetLang :: jsstring
  inputText :: jsstring
  translatedText :: jsstring
  isLoading :: bool
  previousSourceLang :: jsstring

text \<open>
  \<open>getTranslation\<close> is a \<open>useCallback\<close>: it reads \<open>sourceLang\<close>, \<open>targetLang\<close>
  and (in the first variant, for its retry button) \<open>inputText\<close> of the render that
  built it, not of the state at the time it runs. These captured values are the closure.
\<close>

record closure =
  c_sourceLang :: jsstring
  c_targetLang :: jsstring
  c_inputText :: jsstring

text \<open>
  The first variant holds \<open>error: React.ReactNode | null\<close>. The nodes it builds are a
  span of text, a link, the retry button and a fragment of those. The button has its
  label and its handler \<open>() => getTranslation(inputText)\<close>: the \<open>getTranslation\<close> it
  calls, given by its closure, and the text it passes.
\<close>

datatype node =
  Span jsstring
  | Anchor jsstring jsstring
  | RetryButton jsstring "closure \<times> jsstring"
  | Fragment "node list"

record app = session +
  error :: "node option"

text \<open>
  The second variant holds \<open>errorMessage: string | null\<close> and
  \<open>errorType: 'api_key' | 'translation' | null\<close>.
\<close>

datatype errorType = api_key | translation

record app2 = session +
  errorMessage :: "jsstring option"
  errorType :: "errorType option"

text \<open>The state at mount: \<open>useState('pt')\<close>, \<open>useState('en')\<close>, empty buffers.\<close>

definition initialApp :: app where
  "initialApp =
     \<lparr>sourceLang = js ''pt'', targetLang = js ''en'', inputText = [], translatedText = [],
      isLoading = False, previousSourceLang = js ''pt'', error = None\<rparr>"

definition initialApp2 :: app2 where
  "initialApp2 =
     \<lparr>sourceLang = js ''pt'', targetLang = js ''en'', inputText = [], translatedText = [],
      isLoading = False, previousSourceLang = js ''pt'', errorMessage = None,
      errorType = None\<rparr>"

text \<open>
  \<open>useEffect(() => { previousSourceLang.current = sourceLang; }, [sourceLang])\<close>:
  after a render in which \<open>sourceLang\<close> changed, the ref takes its value.
\<close>

definition syncPreviousSourceLang :: "'a session_scheme \<Rightarrow> 'a session_scheme" where
  "syncPreviousSourceLang st = st\<lparr>previousSourceLang := sourceLang st\<rparr>"

section \<open>Manual swap\<close>

text \<open>
  \<open>handleSwapLanguages\<close> is rebuilt at every render, so it reads the state of the
  render in which the button is clicked. The first variant copies the two buffers into
  constants first; the second reads them in place.
\<close>

definition handleSwapLanguages :: "app \<Rightarrow> app" where
  "handleSwapLanguages st =
     (let currentInput = inputText st;
          currentTranslated = translatedText st
      in st\<lparr>sourceLang := targetLang st,
             targetLang := sourceLang st,
             inputText := currentTranslated,
             translatedText := currentInput\<rparr>)"

definition handleSwapLanguages2 :: "app2 \<Rightarrow> app2" where
  "handleSwapLanguages2 st =
     st\<lparr>sourceLang := targetLang st,
        targetLang := sourceLang st,
        inputText := translatedText st,
        translatedText := inputText st\<rparr>"

section \<open>The platform and the remote call\<close>

text \<open>
  What the code takes from its environment: the credential \<open>process.env.API_KEY\<close>,
  \<open>JSON.parse\<close>, \<open>Intl.DisplayNames(['pt-BR'], {type: 'language'}).of\<close> and
  \<open>String.prototype.toUpperCase\<close>. They are parameters of the model.
\<close>

datatype jsError = Error jsstring

datatype thrown = Thrown_Error jsError | Thrown_Other

datatype json =
  JNull
  | JBool bool
  | JNumber
  | JString jsstring
  | JArray "json list"
  | JObject "(jsstring \<times> json) list"

datatype displayName = DisplayNameThrows | DisplayNameUndefined | DisplayName jsstring

record platform =
  API_KEY :: "jsstring option"
  JSON_parse :: "jsstring \<Rightarrow> thrown + json"
  DisplayNames_of :: "jsstring \<Rightarrow> displayName"
  toUpperCase :: "jsstring \<Rightarrow> jsstring"

text \<open>
  The outcome of \<open>await aiClient.models.generateContent(...)\<close> followed by the read of
  \<open>response.text\<close>: the text, or whatever was thrown (a response without text makes
  \<open>response.text.trim()\<close> throw a TypeError).
\<close>

datatype remote = Rejects thrown | Responds jsstring

section \<open>services/geminiService.ts\<close>

text \<open>
  \<open>TranslationResponse\<close> of types.ts; its field \<open>translatedText\<close> is \<open>resultText\<close>
  here, the state having a variable of that name.
\<close>

record TranslationResponse =
  detectedLanguage :: jsstring
  resultText :: jsstring

text \<open>
  The module variable \<open>ai\<close> caches the client; a client is identified by the key it
  was built with. \<open>getAiClient\<close> returns the client and the new value of \<open>ai\<close>.
  \<open>if (process.env.API_KEY)\<close> is false for an undefined and for an empty key.
\<close>

type_synonym GoogleGenAI = jsstring

definition getAiClient :: "platform \<Rightarrow> GoogleGenAI option \<Rightarrow> GoogleGenAI option \<times> GoogleGenAI option" where
  "getAiClient env ai =
     (case ai of
        Some client \<Rightarrow> (Some client, ai)
      | None \<Rightarrow>
          (case API_KEY env of
             Some key \<Rightarrow> if key \<noteq> [] then (Some key, Some key) else (None, ai)
           | None \<Rightarrow> (None, ai)))"

text \<open>
  \<open>result && typeof result.detectedLanguage === 'string' &&
  typeof result.translatedText === 'string'\<close>: only an object has the two properties
  (\<open>null\<close> is stopped by the first conjunct; a primitive or an array has neither). An
  object is the list of its own properties, each name once.
\<close>

fun isString :: "json option \<Rightarrow> bool" where
  "isString (Some (JString s)) = True"
| "isString v = False"

fun stringOf :: "json option \<Rightarrow> jsstring" where
  "stringOf (Some (JString s)) = s"
| "stringOf v = []"

fun property :: "json \<Rightarrow> jsstring \<Rightarrow> json option" where
  "property (JObject ps) k = map_of ps k"
| "property v k = None"

definition API_KEY_MISSING :: jsstring where
  "API_KEY_MISSING = js ''API_KEY_MISSING''"

definition invalidStructure :: jsError where
  "invalidStructure =
     Error (js ''Estrutura de dados inv'' @ [0xE1] @ js ''lida recebida da API de tradu''
            @ [0xE7, 0xE3] @ js ''o.'')"

definition serviceFailure :: jsError where
  "serviceFailure = Error (js ''Falha ao obter tradu'' @ [0xE7, 0xE3] @ js ''o da API Gemini.'')"

text \<open>The body of the \<open>try\<close> block, from the response on.\<close>

definition parseResponse :: "platform \<Rightarrow> remote \<Rightarrow> thrown + TranslationResponse" where
  "parseResponse env r =
     (case r of
        Rejects e \<Rightarrow> Inl e
      | Responds text \<Rightarrow>
          (let jsonString = trim text
           in if jsonString = [] then Inr \<lparr>detectedLanguage = [], resultText = []\<rparr>
              else (case JSON_parse env jsonString of
                      Inl e \<Rightarrow> Inl e
                    | Inr result \<Rightarrow>
                        if isString (property result (js ''detectedLanguage''))
                           \<and> isString (property result (js ''translatedText''))
                        then Inr \<lparr>detectedLanguage =
                                    stringOf (property result (js ''detectedLanguage'')),
                                  resultText =
                                    stringOf (property result (js ''translatedText''))\<rparr>
                        else Inl (Thrown_Error invalidStructure))))"

text \<open>
  The \<open>catch\<close> block: an Error whose message is \<open>API_KEY_MISSING\<close> is thrown again,
  anything else becomes the generic failure.
\<close>

definition rethrow :: "thrown \<Rightarrow> jsError" where
  "rethrow e =
     (case e of
        Thrown_Error (Error m) \<Rightarrow> if m = API_KEY_MISSING then Error m else serviceFailure
      | Thrown_Other \<Rightarrow> serviceFailure)"

text \<open>
  \<open>translateAndDetect(text, targetLang, langName)\<close>. The three arguments go into the
  prompt only; what the remote model answers is the parameter \<open>r\<close>. The promise is
  rejected with an Error (\<open>Inl\<close>) or fulfilled with the response (\<open>Inr\<close>); the second
  component is the new value of \<open>ai\<close>.
\<close>

definition translateAndDetect ::
  "platform \<Rightarrow> GoogleGenAI option \<Rightarrow> remote \<Rightarrow> (jsError + TranslationResponse) \<times> GoogleGenAI option" where
  "translateAndDetect env ai r =
     (case getAiClient env ai of
        (None, ai') \<Rightarrow> (Inl (Error API_KEY_MISSING), ai')
      | (Some aiClient, ai') \<Rightarrow>
          (case parseResponse env r of
             Inl e \<Rightarrow> (Inl (rethrow e), ai')
           | Inr result \<Rightarrow> (Inr result, ai')))"

section \<open>getTranslation, first variant\<close>

text \<open>
  The closure of the \<open>getTranslation\<close> that a render builds. The setters of
  \<open>useState\<close> act on the state itself.
\<close>

definition closureOf :: "'a session_scheme \<Rightarrow> closure" where
  "closureOf st =
     \<lparr>c_sourceLang = sourceLang st, c_targetLang = targetLang st, c_inputText = inputText st\<rparr>"

text \<open>
  The call \<open>translateAndDetect(text, targetLang, supportedLanguages[targetLang])\<close>;
  the third argument is the table's entry for the second.
\<close>

record request =
  req_text :: jsstring
  req_targetLang :: jsstring

text \<open>
  The part before \<open>await\<close>: the state it leaves and the remote call it makes, if any.
\<close>

definition getTranslation_begin :: "closure \<Rightarrow> jsstring \<Rightarrow> app \<Rightarrow> app \<times> request option" where
  "getTranslation_begin cl text st =
     (if trim text = [] then (st\<lparr>translatedText := [], error := None\<rparr>, None)
      else (st\<lparr>isLoading := True, error := None\<rparr>,
            Some \<lparr>req_text = text, req_targetLang = c_targetLang cl\<rparr>))"

text \<open>
  The name shown for an unsupported language: the display name with its first code unit
  in upper case, or the code itself when the lookup throws or gives nothing.
\<close>

definition detectedLangName :: "platform \<Rightarrow> jsstring \<Rightarrow> jsstring" where
  "detectedLangName env detectedLang =
     (case DisplayNames_of env detectedLang of
        DisplayNameThrows \<Rightarrow> detectedLang
      | DisplayNameUndefined \<Rightarrow> detectedLang
      | DisplayName name \<Rightarrow>
          (case name of
             [] \<Rightarrow> detectedLang
           | c # cs \<Rightarrow> toUpperCase env [c] @ cs))"

definition unsupportedMessage :: "jsstring \<Rightarrow> jsstring" where
  "unsupportedMessage name =
     js ''O idioma detectado ('' @ name @ js '') n'' @ [0xE3] @ js ''o '' @ [0xE9]
     @ js '' suportado.''"

definition apiKeyMessage :: jsstring where
  "apiKeyMessage =
     js ''A chave da API est'' @ [0xE1] @ js '' faltando. A funcionalidade de tradu''
     @ [0xE7, 0xE3] @ js ''o est'' @ [0xE1] @ js '' desativada.''"

definition failureMessage :: jsstring where
  "failureMessage = js ''Falha ao traduzir. Por favor, tente novamente.''"

definition apiKeyLink :: node where
  "apiKeyLink =
     Anchor (js ''https://aistudio.google.com/app/apikey'')
            (js ''Obtenha sua chave do Google Gemini aqui.'')"

definition retryButton :: "closure \<times> jsstring \<Rightarrow> node" where
  "retryButton handler = RetryButton (js ''Tentar Novamente'') handler"

text \<open>The \<open>try\<close> block after the \<open>await\<close>.\<close>

definition onResult :: "platform \<Rightarrow> closure \<Rightarrow> TranslationResponse \<Rightarrow> app \<Rightarrow> app" where
  "onResult env cl result st0 =
     (let st = st0\<lparr>translatedText := resultText result\<rparr>;
          detectedLang = detectedLanguage result
      in if detectedLang \<noteq> [] then
           if isSupported detectedLang then
             if detectedLang \<noteq> c_sourceLang cl then
               (let newSourceLang = detectedLang;
                    st' = (if newSourceLang = c_targetLang cl
                           then st\<lparr>targetLang := previousSourceLang st\<rparr> else st)
                in st'\<lparr>sourceLang := newSourceLang\<rparr>)
             else st
           else st\<lparr>error := Some (Span (unsupportedMessage (detectedLangName env detectedLang))),
                   translatedText := []\<rparr>
         else st)"

text \<open>
  The \<open>catch\<close> block; \<open>translateAndDetect\<close> rejects with Error objects only. The
  retry button is built here and stored in the state: its handler calls this very
  \<open>getTranslation\<close> with the \<open>inputText\<close> that it captured.
\<close>

definition onError :: "closure \<Rightarrow> jsError \<Rightarrow> app \<Rightarrow> app" where
  "onError cl err st =
     (case err of
        Error message \<Rightarrow>
          if message = API_KEY_MISSING
          then st\<lparr>error := Some (Fragment [Span apiKeyMessage, apiKeyLink])\<rparr>
          else st\<lparr>error := Some (Fragment [Span failureMessage,
                                              retryButton (cl, c_inputText cl)])\<rparr>)"

text \<open>The part after \<open>await\<close>, with the \<open>finally\<close> block.\<close>

definition getTranslation_resume ::
  "platform \<Rightarrow> closure \<Rightarrow> jsError + TranslationResponse \<Rightarrow> app \<Rightarrow> app" where
  "getTranslation_resume env cl outcome st =
     (case outcome of
        Inr result \<Rightarrow> (onResult env cl result st)\<lparr>isLoading := False\<rparr>
      | Inl err \<Rightarrow> (onError cl err st)\<lparr>isLoading := False\<rparr>)"

text \<open>One whole cycle with nothing happening between the call and its answer.\<close>

definition getTranslation ::
  "platform \<Rightarrow> closure \<Rightarrow> jsstring \<Rightarrow> remote \<Rightarrow> app \<times> GoogleGenAI option \<Rightarrow> app \<times> GoogleGenAI option" where
  "getTranslation env cl text r w =
     (case getTranslation_begin cl text (fst w) of
        (st, None) \<Rightarrow> (st, snd w)
      | (st, Some req) \<Rightarrow>
          (case translateAndDetect env (snd w) r of
             (outcome, ai') \<Rightarrow> (getTranslation_resume env cl outcome st, ai')))"

text \<open>The handlers of the page that set one state variable.\<close>

definition changeInputText :: "jsstring \<Rightarrow> 'a session_scheme \<Rightarrow> 'a session_scheme" where
  "changeInputText v st = st\<lparr>inputText := v\<rparr>"


text \<open>
  The alert of the first variant shows \<open>{error}\<close>: the nodes of the fragment, in order.
\<close>

fun children :: "node \<Rightarrow> node list" where
  "children (Fragment ns) = concat (map children ns)"
| "children n = [n]"

definition alert :: "app \<Rightarrow> node list option" where
  "alert st = map_option children (error st)"

definition handleClearInput :: "app \<Rightarrow> app" where
  "handleClearInput st = st\<lparr>inputText := [], translatedText := [], error := None\<rparr>"

text \<open>
  A platform for the examples: no credential, a \<open>JSON.parse\<close> that knows one document
  (an answer that detects Latin) and throws on any other text, display names that fall
  back to the code, upper case on ASCII letters. \<open>keyedPlatform\<close> is the same with a
  credential.
\<close>

definition latinAnswer :: jsstring where
  \<open>latinAnswer = js ''{"detectedLanguage":"la","translatedText":"Hello"}''\<close>

definition examplePlatform :: platform where
  "examplePlatform =
     \<lparr>API_KEY = None,
      JSON_parse =
        (\<lambda>s. if s = latinAnswer
             then Inr (JObject [(js ''detectedLanguage'', JString (js ''la'')),
                                (js ''translatedText'', JString (js ''Hello''))])
             else Inl (Thrown_Error (Error (js ''Unexpected token'')))),
      DisplayNames_of = DisplayName,
      toUpperCase = map (\<lambda>c. if 0x61 \<le> c \<and> c \<le> 0x7A then c - 0x20 else c)\<rparr>"

definition keyedPlatform :: platform where
  "keyedPlatform = examplePlatform\<lparr>API_KEY := Some (js ''key'')\<rparr>"

section \<open>getTranslation, second variant\<close>

text \<open>
  The second variant of App.tsx holds a message and a kind instead of a node, tests
  \<open>isSupported(detectedLang) && detectedLang !== sourceLang\<close> in one condition, and
  renders the alert from the two state variables in \<open>renderError\<close>. Its
  \<open>getTranslation\<close> reads \<open>sourceLang\<close> and \<open>targetLang\<close> of its closure only.
\<close>

definition getTranslation2_begin :: "closure \<Rightarrow> jsstring \<Rightarrow> app2 \<Rightarrow> app2 \<times> request option" where
  "getTranslation2_begin cl text st =
     (if trim text = [] then (st\<lparr>translatedText := [], errorMessage := None, errorType := None\<rparr>, None)
      else (st\<lparr>isLoading := True, errorMessage := None, errorType := None\<rparr>,
            Some \<lparr>req_text = text, req_targetLang = c_targetLang cl\<rparr>))"

definition onResult2 :: "platform \<Rightarrow> closure \<Rightarrow> TranslationResponse \<Rightarrow> app2 \<Rightarrow> app2" where
  "onResult2 env cl result st0 =
     (let st = st0\<lparr>translatedText := resultText result\<rparr>;
          detectedLang = detectedLanguage result
      in if detectedLang \<noteq> [] then
           if isSupported detectedLang \<and> detectedLang \<noteq> c_sourceLang cl then
             (let st' = (if detectedLang = c_targetLang cl
                         then st\<lparr>targetLang := previousSourceLang st\<rparr> else st)
              in st'\<lparr>sourceLang := detectedLang\<rparr>)
           else if \<not> isSupported detectedLang then
             st\<lparr>errorMessage := Some (unsupportedMessage (detectedLangName env detectedLang)),
                errorType := Some translation,
                translatedText := []\<rparr>
           else st
         else st)"

definition onError2 :: "jsError \<Rightarrow> app2 \<Rightarrow> app2" where
  "onError2 err st =
     (case err of
        Error message \<Rightarrow>
          if message = API_KEY_MISSING
          then st\<lparr>errorMessage := Some apiKeyMessage, errorType := Some api_key\<rparr>
          else st\<lparr>errorMessage := Some failureMessage, errorType := Some translation\<rparr>)"

definition getTranslation2_resume ::
  "platform \<Rightarrow> closure \<Rightarrow> jsError + TranslationResponse \<Rightarrow> app2 \<Rightarrow> app2" where
  "getTranslation2_resume env cl outcome st =
     (case outcome of
        Inr result \<Rightarrow> (onResult2 env cl result st)\<lparr>isLoading := False\<rparr>
      | Inl err \<Rightarrow> (onError2 err st)\<lparr>isLoading := False\<rparr>)"

definition getTranslation2 ::
  "platform \<Rightarrow> closure \<Rightarrow> jsstring \<Rightarrow> remote \<Rightarrow> app2 \<times> GoogleGenAI option \<Rightarrow> app2 \<times> GoogleGenAI option" where
  "getTranslation2 env cl text r w =
     (case getTranslation2_begin cl text (fst w) of
        (st, None) \<Rightarrow> (st, snd w)
      | (st, Some req) \<Rightarrow>
          (case translateAndDetect env (snd w) r of
             (outcome, ai') \<Rightarrow> (getTranslation2_resume env cl outcome st, ai')))"

text \<open>
  \<open>renderError\<close>: nothing for a null or empty message; else the message in a span, the
  link for kind \<open>api_key\<close>, the retry button for kind \<open>translation\<close>. It runs at
  every render, so the handler of its button calls the \<open>getTranslation\<close> of the
  current render with the current \<open>inputText\<close>.
\<close>

definition renderError :: "app2 \<Rightarrow> node list option" where
  "renderError st =
     (case errorMessage st of
        None \<Rightarrow> None
      | Some message \<Rightarrow>
          if message = [] then None
          else Some ([Span message]
                     @ (if errorType st = Some api_key then [apiKeyLink] else [])
                     @ (if errorType st = Some translation
                        then [retryButton (closureOf st, inputText st)] else [])))"

text \<open>
  The answers on which the two variants show different alerts: a detected language that
  is not empty and that \<open>isSupported\<close> rejects.
\<close>

definition rejectedLanguage :: "jsError + TranslationResponse \<Rightarrow> bool" where
  "rejectedLanguage outcome =
     (case outcome of
        Inr result \<Rightarrow> detectedLanguage result \<noteq> [] \<and> \<not> isSupported (detectedLanguage result)
      | Inl err \<Rightarrow> False)"

section \<open>The debounce effect\<close>

text \<open>
  Time is counted in milliseconds. A pending timer of \<open>window.setTimeout\<close> has a
  handle (an integer above zero), the time at which it is due and its callback
  \<open>() => getTranslation(inputText)\<close>, which is the \<open>getTranslation\<close> and the
  \<open>inputText\<close> of the render that armed it. The page is the state of the component,
  the ref \<open>debounceTimeout\<close>, the clock, the pending timers and the log of the calls of
  \<open>getTranslation\<close> that timers have made.
\<close>

record timer =
  handle :: nat
  due :: nat
  callback :: "closure \<times> jsstring"

record page =
  view :: app
  debounceTimeout :: "nat option"
  now :: nat
  nextHandle :: nat
  timers :: "timer list"
  invocations :: "(closure \<times> jsstring) list"

text \<open>
  \<open>setTimeout\<close> queues a timer and returns its handle; \<open>clearTimeout\<close> removes the
  timer with that handle, if it is still pending.
\<close>

definition window_setTimeout :: "closure \<times> jsstring \<Rightarrow> nat \<Rightarrow> page \<Rightarrow> nat \<times> page" where
  "window_setTimeout cb delay pg =
     (nextHandle pg,
      pg\<lparr>nextHandle := Suc (nextHandle pg),
         timers := timers pg @ [\<lparr>handle = nextHandle pg, due = now pg + delay, callback = cb\<rparr>]\<rparr>)"

definition clearTimeout :: "nat \<Rightarrow> page \<Rightarrow> page" where
  "clearTimeout h pg = pg\<lparr>timers := filter (\<lambda>t. handle t \<noteq> h) (timers pg)\<rparr>"

text \<open>
  The effect \<open>useEffect(..., [inputText, getTranslation])\<close>: its cleanup clears the
  timer of the ref; its body clears it too, arms a new timer of 800 ms and stores the
  handle in the ref. \<open>if (debounceTimeout.current)\<close> is false for null and for 0.
\<close>

definition debounceCleanup :: "page \<Rightarrow> page" where
  "debounceCleanup pg =
     (case debounceTimeout pg of
        Some h \<Rightarrow> if h \<noteq> 0 then clearTimeout h pg else pg
      | None \<Rightarrow> pg)"

definition debounceEffect :: "page \<Rightarrow> page" where
  "debounceEffect pg =
     (let pg1 = (case debounceTimeout pg of
                   Some h \<Rightarrow> if h \<noteq> 0 then clearTimeout h pg else pg
                 | None \<Rightarrow> pg);
          armed = window_setTimeout (closureOf (view pg1), inputText (view pg1)) 800 pg1
      in (snd armed)\<lparr>debounceTimeout := Some (fst armed)\<rparr>)"

text \<open>
  A render after a state change, \<open>prev\<close> being the state of the render before. The
  effect on the ref runs when \<open>sourceLang\<close> changed. \<open>getTranslation\<close> is rebuilt when
  \<open>sourceLang\<close>, \<open>targetLang\<close> (and, in the first variant, \<open>inputText\<close>) changed,
  so the debounce effect runs when one of the three changed: cleanups first, then the
  effects in the order of the source.
\<close>

definition rerender :: "app \<Rightarrow> page \<Rightarrow> page" where
  "rerender prev pg =
     (let sourceChanged = (sourceLang (view pg) \<noteq> sourceLang prev);
          debounceChanged = (inputText (view pg) \<noteq> inputText prev \<or> sourceChanged
                             \<or> targetLang (view pg) \<noteq> targetLang prev);
          pg1 = (if debounceChanged then debounceCleanup pg else pg);
          pg2 = (if sourceChanged then pg1\<lparr>view := syncPreviousSourceLang (view pg1)\<rparr> else pg1)
      in if debounceChanged then debounceEffect pg2 else pg2)"



definition respond :: "platform \<Rightarrow> closure \<Rightarrow> jsError + TranslationResponse \<Rightarrow> page \<Rightarrow> page" where
  "respond env cl outcome pg =
     rerender (view pg) (pg\<lparr>view := getTranslation_resume env cl outcome (view pg)\<rparr>)"

definition invoke :: "page \<Rightarrow> timer \<Rightarrow> page" where
  "invoke pg t =
     rerender (view pg)
       (pg\<lparr>view := fst (getTranslation_begin (fst (callback t)) (snd (callback t)) (view pg)),
           invocations := invocations pg @ [callback t]\<rparr>)"

definition elapse :: "nat \<Rightarrow> page \<Rightarrow> page" where
  "elapse d pg =
     foldl invoke
       (pg\<lparr>now := now pg + d, timers := filter (\<lambda>t. \<not> due t \<le> now pg + d) (timers pg)\<rparr>)
       (sort_key due (filter (\<lambda>t. due t \<le> now pg + d) (timers pg)))"



text \<open>
  At most one timer is pending and the ref holds its handle (\<open>settled\<close>); a timer armed
  just now for the current text is pending (\<open>armed\<close>).
\<close>

definition settled :: "page \<Rightarrow> bool" where
  "settled pg =
     (0 < nextHandle pg
      \<and> (case timers pg of
            [] \<Rightarrow> True
          | t # ts \<Rightarrow> ts = [] \<and> debounceTimeout pg = Some (handle t) \<and> handle t \<noteq> 0))"

definition armed :: "page \<Rightarrow> bool" where
  "armed pg =
     (0 < nextHandle pg
      \<and> (case timers pg of
            [] \<Rightarrow> False
          | t # ts \<Rightarrow> ts = [] \<and> debounceTimeout pg = Some (handle t) \<and> handle t \<noteq> 0
                      \<and> due t = now pg + 800
                      \<and> callback t = (closureOf (view pg), inputText (view pg))))"


section \<open>Auxiliary facts\<close>



lemma trim_blank: "trim (js '' '') = []"
  by (simp add: trim_def js_def isWhiteSpace_def)

lemma trim_Hola: "trim (js ''Hola'') \<noteq> []"
  by (simp add: trim_def js_def isWhiteSpace_def)

lemma messages_nonempty:
  "unsupportedMessage n \<noteq> []" "apiKeyMessage \<noteq> []" "failureMessage \<noteq> []"
  by (simp_all add: unsupportedMessage_def apiKeyMessage_def failureMessage_def js_def)

text \<open>
  The ref holds the source language of the state once its effect has run, and the effect
  runs after every render that changed the source language.
\<close>

lemma previousSourceLang_synced:
  "previousSourceLang (syncPreviousSourceLang st) = sourceLang (syncPreviousSourceLang st)"
  by (simp add: syncPreviousSourceLang_def)

subsection \<open>The service\<close>

text \<open>Without a credential no client is ever built, so \<open>ai\<close> stays null.\<close>

lemma getAiClient_without_key:
  assumes "API_KEY env = None \<or> API_KEY env = Some []"
  shows "getAiClient env None = (None, None)"
  using assms by (auto simp: getAiClient_def)

text \<open>
  The service rejects with one of two errors only: the missing credential, or the generic
  failure (or an error of the remote call that carries the message of the former).
\<close>

lemma translateAndDetect_rejections:
  assumes "translateAndDetect env ai r = (Inl err, ai')"
  shows "err = Error API_KEY_MISSING \<or> err = serviceFailure"
  using assms
  by (auto simp: translateAndDetect_def rethrow_def
      split: prod.splits option.splits sum.splits thrown.splits jsError.splits if_splits)

text \<open>With a credential, a response whose text is blank is the empty answer.\<close>

lemma translateAndDetect_blank_response:
  assumes "API_KEY env = Some key" and "key \<noteq> []" and "trim text = []"
  shows "translateAndDetect env None (Responds text)
           = (Inr \<lparr>detectedLanguage = [], resultText = []\<rparr>, Some key)"
  using assms by (simp add: translateAndDetect_def getAiClient_def parseResponse_def)

subsection \<open>The answer of the first variant, case by case\<close>


lemma resume_same_source:
  assumes "detectedLanguage result = c_sourceLang cl" and "isSupported (detectedLanguage result)"
  shows "getTranslation_resume env cl (Inr result) st =
           st\<lparr>translatedText := resultText result, isLoading := False\<rparr>"
  using assms by (simp add: getTranslation_resume_def onResult_def Let_def)

text \<open>
  A detected language that \<open>isSupported\<close> rejects blanks the translation and sets the
  error that names it; the selections stay.
\<close>

lemma resume_rejected_language:
  assumes "detectedLanguage result \<noteq> []" and "\<not> isSupported (detectedLanguage result)"
  shows "getTranslation_resume env cl (Inr result) st =
           st\<lparr>translatedText := [], isLoading := False,
              error := Some (Span (unsupportedMessage
                                     (detectedLangName env (detectedLanguage result))))\<rparr>"
  using assms by (simp add: getTranslation_resume_def onResult_def Let_def)

subsection \<open>The two variants, phase by phase\<close>

lemma begin_agree:
  assumes "session.truncate st = session.truncate st2"
  shows "session.truncate (fst (getTranslation_begin cl text st))
           = session.truncate (fst (getTranslation2_begin cl text st2))"
    and "snd (getTranslation_begin cl text st) = snd (getTranslation2_begin cl text st2)"
    and "alert (fst (getTranslation_begin cl text st)) = None"
    and "renderError (fst (getTranslation2_begin cl text st2)) = None"
  using assms
  by (auto simp: getTranslation_begin_def getTranslation2_begin_def session.truncate_def
      alert_def renderError_def)

lemma resume_agree:
  assumes "session.truncate st = session.truncate st2"
  shows "session.truncate (getTranslation_resume env cl outcome st)
           = session.truncate (getTranslation2_resume env cl outcome st2)"
  using assms
  by (auto simp: getTranslation_resume_def getTranslation2_resume_def session.truncate_def
      onResult_def onResult2_def onError_def onError2_def Let_def
      split: sum.splits jsError.splits if_splits)

text \<open>The alert after the answer, in each variant, when none was shown before.\<close>

lemma resume_alert:
  assumes "alert st = None"
  shows "alert (getTranslation_resume env cl outcome st)
           = (case outcome of
                Inl err \<Rightarrow>
                  Some (if err = Error API_KEY_MISSING then [Span apiKeyMessage, apiKeyLink]
                        else [Span failureMessage, retryButton (cl, c_inputText cl)])
              | Inr result \<Rightarrow>
                  if rejectedLanguage (Inr result)
                  then Some [Span (unsupportedMessage
                                     (detectedLangName env (detectedLanguage result)))]
                  else None)"
  using assms
  by (auto simp: getTranslation_resume_def alert_def onResult_def onError_def Let_def
      rejectedLanguage_def apiKeyLink_def retryButton_def
      split: sum.splits jsError.splits option.splits if_splits)

lemma resume2_alert:
  assumes "errorMessage st2 = None"
  shows "renderError (getTranslation2_resume env cl outcome st2)
           = (case outcome of
                Inl err \<Rightarrow>
                  Some (if err = Error API_KEY_MISSING then [Span apiKeyMessage, apiKeyLink]
                        else [Span failureMessage, retryButton (closureOf st2, inputText st2)])
              | Inr result \<Rightarrow>
                  if rejectedLanguage (Inr result)
                  then Some [Span (unsupportedMessage
                                     (detectedLangName env (detectedLanguage result))),
                             retryButton (closureOf st2, inputText st2)]
                  else None)"
  using assms
  by (auto simp: getTranslation2_resume_def renderError_def onResult2_def onError2_def Let_def
      rejectedLanguage_def messages_nonempty closureOf_def
      split: sum.splits jsError.splits option.splits if_splits)

lemma begin2_clears:
  "errorMessage (fst (getTranslation2_begin cl text st2)) = None"
  "closureOf (fst (getTranslation2_begin cl text st2)) = closureOf st2"
  "inputText (fst (getTranslation2_begin cl text st2)) = inputText st2"
  by (simp_all add: getTranslation2_begin_def closureOf_def)

subsection \<open>The timer\<close>











text \<open>\<open>settled\<close> holds at mount and is kept by every event of the page.\<close>

lemma rerender_settled:
  assumes "settled pg"
  shows "settled (rerender prev pg)"
  using assms
  by (auto simp: rerender_def Let_def settled_def debounceCleanup_def debounceEffect_def
      clearTimeout_def window_setTimeout_def split: list.splits option.splits)


lemma respond_settled: "settled pg \<Longrightarrow> settled (respond env cl outcome pg)"
  unfolding respond_def by (rule rerender_settled) (simp add: settled_def split: list.splits)

lemma invoke_settled: "settled pg \<Longrightarrow> settled (invoke pg t)"
  unfolding invoke_def by (rule rerender_settled) (simp add: settled_def split: list.splits)

lemma elapse_settled:
  assumes "settled pg"
  shows "settled (elapse d pg)"
proof (cases "timers pg")
  case Nil
  with assms show ?thesis by (simp add: elapse_def settled_def)
next
  case (Cons t ts)
  with assms have ts: "ts = []" by (simp add: settled_def)
  show ?thesis
  proof (cases "due t \<le> now pg + d")
    case True
    have "settled (pg\<lparr>now := now pg + d, timers := []\<rparr>)"
      using assms by (simp add: settled_def)
    from invoke_settled[OF this, of t] show ?thesis
      using Cons ts True by (simp add: elapse_def)
  next
    case False
    with assms Cons ts show ?thesis by (simp add: elapse_def settled_def)
  qed
qed

section \<open>Language reconciliation\<close>







text \<open>
  C3. The detected code "constructor" is not empty and is not one of the supported codes,
  yet \<open>isSupported\<close> accepts it, because \<open>in\<close> finds the property that the table
  inherits from \<open>Object.prototype\<close>: the translation is kept, no error is set and the
  source language becomes "constructor".
\<close>

theorem inherited_property_accepted:
  "js ''constructor'' \<noteq> [] \<and> js ''constructor'' \<notin> set languageCodes
   \<and> getTranslation_resume env
        \<lparr>c_sourceLang = js ''pt'', c_targetLang = js ''en'', c_inputText = js ''constructor''\<rparr>
        (Inr \<lparr>detectedLanguage = js ''constructor'', resultText = js ''construtor''\<rparr>)
        (initialApp\<lparr>inputText := js ''constructor'', isLoading := True\<rparr>)
      = initialApp\<lparr>inputText := js ''constructor'', translatedText := js ''construtor'',
                    sourceLang := js ''constructor''\<rparr>"
  by (simp add: getTranslation_resume_def onResult_def Let_def isSupported_def
      languageCodes_def supportedLanguages_def objectPrototypeKeys_def js_def initialApp_def)

text \<open>
  C8. When the detected language of a successful answer is empty, nothing is reconciled:
  the answer only stores the translated text and ends the loading; \<open>sourceLang\<close>,
  \<open>targetLang\<close> and the error are as before.
\<close>

theorem empty_detection_noop:
  assumes "detectedLanguage result = []"
  shows "getTranslation_resume env cl (Inr result) st
           = st\<lparr>translatedText := resultText result, isLoading := False\<rparr>
         \<and> sourceLang (getTranslation_resume env cl (Inr result) st) = sourceLang st
         \<and> targetLang (getTranslation_resume env cl (Inr result) st) = targetLang st
         \<and> error (getTranslation_resume env cl (Inr result) st) = error st"
  using assms by (simp add: getTranslation_resume_def onResult_def Let_def)

theorem empty_detection_noop_witness:
  "detectedLanguage \<lparr>detectedLanguage = [], resultText = []\<rparr> = []
   \<and> getTranslation_resume examplePlatform
        (closureOf (changeInputText (js ''asdfgh'') initialApp))
        (Inr \<lparr>detectedLanguage = [], resultText = []\<rparr>)
        (fst (getTranslation_begin (closureOf (changeInputText (js ''asdfgh'') initialApp))
                (js ''asdfgh'') (changeInputText (js ''asdfgh'') initialApp)))
      = changeInputText (js ''asdfgh'') initialApp"
  using empty_detection_noop[of "\<lparr>detectedLanguage = [], resultText = []\<rparr>" examplePlatform
      "closureOf (changeInputText (js ''asdfgh'') initialApp)"
      "fst (getTranslation_begin (closureOf (changeInputText (js ''asdfgh'') initialApp))
              (js ''asdfgh'') (changeInputText (js ''asdfgh'') initialApp))"]
  by (simp add: getTranslation_begin_def trim_def isWhiteSpace_def js_def initialApp_def
      changeInputText_def)

section \<open>The translation cycle\<close>

text \<open>
  C4. For a text that is empty or only white space, \<open>getTranslation\<close> makes no remote
  call, empties \<open>translatedText\<close>, clears the error and leaves every other state
  variable as it was; in particular \<open>isLoading\<close> is not touched.
\<close>

theorem blank_text_skips_call:
  assumes "trim text = []"
  shows "getTranslation_begin cl text st = (st\<lparr>translatedText := [], error := None\<rparr>, None)
         \<and> getTranslation env cl text r (st, ai)
             = (st\<lparr>translatedText := [], error := None\<rparr>, ai)
         \<and> isLoading (fst (getTranslation env cl text r (st, ai))) = isLoading st"
  using assms by (simp add: getTranslation_def getTranslation_begin_def)

theorem blank_text_skips_call_witness:
  "trim (js '' '') = []
   \<and> getTranslation_begin (closureOf initialApp) (js '' '') initialApp
       = (initialApp\<lparr>translatedText := [], error := None\<rparr>, None)
   \<and> getTranslation examplePlatform (closureOf initialApp) (js '' '') (Responds [])
        (initialApp, None)
       = (initialApp\<lparr>translatedText := [], error := None\<rparr>, None)
   \<and> \<not> isLoading (fst (getTranslation examplePlatform (closureOf initialApp) (js '' '')
                          (Responds []) (initialApp, None)))"
  using blank_text_skips_call[OF trim_blank, of "closureOf initialApp" initialApp
      examplePlatform "Responds []" None]
  by (simp add: trim_blank initialApp_def)

text \<open>
  So \<open>isLoading\<close> is true after a blank submission that finds it true. "Hola" is typed
  and its request is in flight; the user clears the input; the timer then submits the
  empty text, and the page still shows the loader.
\<close>

theorem blank_text_while_loading:
  "trim [] = []
   \<and> isLoading (fst (getTranslation examplePlatform (closureOf initialApp) [] (Responds [])
        (handleClearInput
           (fst (getTranslation_begin (closureOf (changeInputText (js ''Hola'') initialApp))
                   (js ''Hola'') (changeInputText (js ''Hola'') initialApp))), None)))"
  by (simp add: getTranslation_def getTranslation_begin_def trim_def js_def isWhiteSpace_def
      handleClearInput_def changeInputText_def initialApp_def closureOf_def)

text \<open>
  C7. When no credential is configured (the key is undefined or empty, so no client was
  ever built) and the text is neither empty nor only white space:
  \<open>translateAndDetect\<close> rejects with the error \<open>API_KEY_MISSING\<close>, the error of the
  state becomes the missing-credential alert, \<open>isLoading\<close> is false at the end and
  \<open>translatedText\<close> is as before.
\<close>

theorem missing_credential:
  assumes "trim text \<noteq> []" and "ai = None" and "API_KEY env = None \<or> API_KEY env = Some []"
  shows "translateAndDetect env ai r = (Inl (Error API_KEY_MISSING), None)
         \<and> getTranslation env cl text r (st, ai)
             = (st\<lparr>error := Some (Fragment [Span apiKeyMessage, apiKeyLink]),
                   isLoading := False\<rparr>, None)
         \<and> isLoading (fst (getTranslation env cl text r (st, ai))) = False
         \<and> translatedText (fst (getTranslation env cl text r (st, ai))) = translatedText st"
  using assms
  by (auto simp: getTranslation_def getTranslation_begin_def translateAndDetect_def
      getAiClient_def getTranslation_resume_def onError_def)

theorem missing_credential_witness:
  "trim (js ''Hola'') \<noteq> [] \<and> API_KEY examplePlatform = None
   \<and> translateAndDetect examplePlatform None (Responds []) = (Inl (Error API_KEY_MISSING), None)
   \<and> getTranslation examplePlatform (closureOf (changeInputText (js ''Hola'') initialApp))
        (js ''Hola'') (Responds []) (changeInputText (js ''Hola'') initialApp, None)
       = ((changeInputText (js ''Hola'') initialApp)
            \<lparr>error := Some (Fragment [Span apiKeyMessage, apiKeyLink])\<rparr>, None)"
  using missing_credential[OF trim_Hola, of None examplePlatform "Responds []"
      "closureOf (changeInputText (js ''Hola'') initialApp)"
      "changeInputText (js ''Hola'') initialApp"]
  by (simp add: trim_Hola examplePlatform_def initialApp_def changeInputText_def)

text \<open>
  A text of white space is not empty, but it never reaches the service. Without a
  credential, "Hello" is typed and the languages are swapped, so that "Hello" is the
  translated text; then a space is typed and submitted: no error is set and the
  translated text is emptied.
\<close>

theorem blank_text_without_credential:
  "js '' '' \<noteq> [] \<and> API_KEY examplePlatform = None
   \<and> translatedText (changeInputText (js '' '')
         (handleSwapLanguages (changeInputText (js ''Hello'') initialApp))) = js ''Hello''
   \<and> getTranslation examplePlatform
        (closureOf (changeInputText (js '' '')
           (handleSwapLanguages (changeInputText (js ''Hello'') initialApp))))
        (js '' '') (Responds [])
        (changeInputText (js '' '')
           (handleSwapLanguages (changeInputText (js ''Hello'') initialApp)), None)
     = ((changeInputText (js '' '')
           (handleSwapLanguages (changeInputText (js ''Hello'') initialApp)))
          \<lparr>translatedText := [], error := None\<rparr>, None)"
  by (simp add: getTranslation_def getTranslation_begin_def trim_def isWhiteSpace_def js_def
      examplePlatform_def changeInputText_def handleSwapLanguages_def initialApp_def Let_def)

section \<open>The two variants\<close>

text \<open>
  C9. From states that agree on the state variables other than the error, one cycle of
  the two variants on the same text and the same remote outcome gives states that agree
  on \<open>sourceLang\<close>, \<open>targetLang\<close>, \<open>inputText\<close>, \<open>translatedText\<close>, \<open>isLoading\<close>
  and the ref, and the same value of \<open>ai\<close>. Both show no alert for a blank text and for
  an answer that is accepted, and the same message and link for a missing credential.
  They differ in two ways. For a detected language that is rejected as unsupported, the
  first variant shows the message alone, the second shows the retry button after it (its
  kind is \<open>translation\<close>). And the retry button of the first variant, shown for a failed
  request, calls the \<open>getTranslation\<close> of the failing call with the \<open>inputText\<close> that
  it captured, while the button of the second variant calls the \<open>getTranslation\<close> of
  the current render with the current \<open>inputText\<close>.
\<close>

theorem variants_agree:
  assumes "session.truncate st = session.truncate st2"
  shows "session.truncate (fst (getTranslation env cl text r (st, ai)))
           = session.truncate (fst (getTranslation2 env cl text r (st2, ai)))
         \<and> snd (getTranslation env cl text r (st, ai))
             = snd (getTranslation2 env cl text r (st2, ai))
         \<and> alert (fst (getTranslation env cl text r (st, ai)))
             = (if trim text = [] then None
                else case fst (translateAndDetect env ai r) of
                       Inl err \<Rightarrow>
                         Some (if err = Error API_KEY_MISSING
                               then [Span apiKeyMessage, apiKeyLink]
                               else [Span failureMessage, retryButton (cl, c_inputText cl)])
                     | Inr result \<Rightarrow>
                         if rejectedLanguage (Inr result)
                         then Some [Span (unsupportedMessage
                                            (detectedLangName env (detectedLanguage result)))]
                         else None)
         \<and> renderError (fst (getTranslation2 env cl text r (st2, ai)))
             = (if trim text = [] then None
                else case fst (translateAndDetect env ai r) of
                       Inl err \<Rightarrow>
                         Some (if err = Error API_KEY_MISSING
                               then [Span apiKeyMessage, apiKeyLink]
                               else [Span failureMessage,
                                     retryButton (closureOf st2, inputText st2)])
                     | Inr result \<Rightarrow>
                         if rejectedLanguage (Inr result)
                         then Some [Span (unsupportedMessage
                                            (detectedLangName env (detectedLanguage result))),
                                    retryButton (closureOf st2, inputText st2)]
                         else None)"
proof (cases "trim text = []")
  case True
  then have "getTranslation env cl text r (st, ai) = (fst (getTranslation_begin cl text st), ai)"
    and "getTranslation2 env cl text r (st2, ai) = (fst (getTranslation2_begin cl text st2), ai)"
    by (simp_all add: getTranslation_def getTranslation2_def getTranslation_begin_def
        getTranslation2_begin_def)
  with True begin_agree[OF assms, of cl "text"] show ?thesis by simp
next
  case False
  obtain outcome ai' where t: "translateAndDetect env ai r = (outcome, ai')"
    by (cases "translateAndDetect env ai r")
  let ?b = "fst (getTranslation_begin cl text st)"
  let ?b2 = "fst (getTranslation2_begin cl text st2)"
  from False t have g: "getTranslation env cl text r (st, ai)
      = (getTranslation_resume env cl outcome ?b, ai')"
    and g2: "getTranslation2 env cl text r (st2, ai)
      = (getTranslation2_resume env cl outcome ?b2, ai')"
    by (simp_all add: getTranslation_def getTranslation2_def getTranslation_begin_def
        getTranslation2_begin_def)
  note b = begin_agree[OF assms, of cl "text"]
  have "session.truncate (getTranslation_resume env cl outcome ?b)
          = session.truncate (getTranslation2_resume env cl outcome ?b2)"
    by (rule resume_agree[OF b(1)])
  moreover note resume_alert[OF b(3), of env cl outcome]
    resume2_alert[OF begin2_clears(1), of env cl outcome cl "text" st2,
      unfolded begin2_clears(2,3)]
  ultimately show ?thesis
    using False t g g2 by simp
qed

text \<open>
  At the initial selections, without a credential, "Hola" is submitted: both variants
  show the message and the link.
\<close>

theorem variants_agree_witness:
  "session.truncate (changeInputText (js ''Hola'') initialApp)
     = session.truncate (changeInputText (js ''Hola'') initialApp2)
   \<and> session.truncate (fst (getTranslation examplePlatform
        (closureOf (changeInputText (js ''Hola'') initialApp)) (js ''Hola'')
        (Responds []) (changeInputText (js ''Hola'') initialApp, None)))
     = session.truncate (fst (getTranslation2 examplePlatform
        (closureOf (changeInputText (js ''Hola'') initialApp)) (js ''Hola'')
        (Responds []) (changeInputText (js ''Hola'') initialApp2, None)))
   \<and> alert (fst (getTranslation examplePlatform
        (closureOf (changeInputText (js ''Hola'') initialApp)) (js ''Hola'')
        (Responds []) (changeInputText (js ''Hola'') initialApp, None)))
     = Some [Span apiKeyMessage, apiKeyLink]
   \<and> renderError (fst (getTranslation2 examplePlatform
        (closureOf (changeInputText (js ''Hola'') initialApp)) (js ''Hola'')
        (Responds []) (changeInputText (js ''Hola'') initialApp2, None)))
     = Some [Span apiKeyMessage, apiKeyLink]"
proof -
  have h: "session.truncate (changeInputText (js ''Hola'') initialApp)
             = session.truncate (changeInputText (js ''Hola'') initialApp2)"
    by (simp add: session.truncate_def changeInputText_def initialApp_def initialApp2_def)
  have t: "fst (translateAndDetect examplePlatform None (Responds []))
             = Inl (Error API_KEY_MISSING)"
    by (simp add: translateAndDetect_def getAiClient_def examplePlatform_def)
  from h t variants_agree[OF h, of examplePlatform
      "closureOf (changeInputText (js ''Hola'') initialApp)" "js ''Hola''" "Responds []" None]
  show ?thesis by (simp add: trim_Hola)
qed

text \<open>
  The first difference: "Salve" is submitted at pt and en and the answer detects Latin,
  which is not in the table. The first variant shows the message; the second shows the
  message and the retry button. The second difference: "Hola" is submitted and the
  request fails; both show the retry button; then the input is edited to "Adios". The
  button of the first variant still submits "Hola", that of the second submits "Adios".
\<close>

theorem variants_render_differently:
  "session.truncate (changeInputText (js ''Salve'') initialApp)
     = session.truncate (changeInputText (js ''Salve'') initialApp2)
   \<and> alert (fst (getTranslation keyedPlatform
                   (closureOf (changeInputText (js ''Salve'') initialApp)) (js ''Salve'')
                   (Responds latinAnswer) (changeInputText (js ''Salve'') initialApp, None)))
     = Some [Span (unsupportedMessage (js ''La''))]
   \<and> renderError (fst (getTranslation2 keyedPlatform
                   (closureOf (changeInputText (js ''Salve'') initialApp)) (js ''Salve'')
                   (Responds latinAnswer) (changeInputText (js ''Salve'') initialApp2, None)))
     = Some [Span (unsupportedMessage (js ''La'')),
             retryButton (\<lparr>c_sourceLang = js ''pt'', c_targetLang = js ''en'',
                            c_inputText = js ''Salve''\<rparr>, js ''Salve'')]
   \<and> alert (changeInputText (js ''Adios'')
        (fst (getTranslation keyedPlatform
                (closureOf (changeInputText (js ''Hola'') initialApp)) (js ''Hola'')
                (Rejects Thrown_Other) (changeInputText (js ''Hola'') initialApp, None))))
     = Some [Span failureMessage,
             retryButton (\<lparr>c_sourceLang = js ''pt'', c_targetLang = js ''en'',
                            c_inputText = js ''Hola''\<rparr>, js ''Hola'')]
   \<and> renderError (changeInputText (js ''Adios'')
        (fst (getTranslation2 keyedPlatform
                (closureOf (changeInputText (js ''Hola'') initialApp)) (js ''Hola'')
                (Rejects Thrown_Other) (changeInputText (js ''Hola'') initialApp2, None))))
     = Some [Span failureMessage,
             retryButton (\<lparr>c_sourceLang = js ''pt'', c_targetLang = js ''en'',
                            c_inputText = js ''Adios''\<rparr>, js ''Adios'')]"
proof -
  have t: "trim latinAnswer = latinAnswer" "latinAnswer \<noteq> []"
    by (simp_all add: trim_def latinAnswer_def isWhiteSpace_def js_def)
  have r: "translateAndDetect keyedPlatform None (Responds latinAnswer)
             = (Inr \<lparr>detectedLanguage = js ''la'', resultText = js ''Hello''\<rparr>,
                Some (js ''key''))"
    by (simp add: translateAndDetect_def getAiClient_def parseResponse_def t
        keyedPlatform_def examplePlatform_def js_def)
  have f: "translateAndDetect keyedPlatform None (Rejects Thrown_Other)
             = (Inl serviceFailure, Some (js ''key''))"
    by (simp add: translateAndDetect_def getAiClient_def parseResponse_def rethrow_def
        keyedPlatform_def examplePlatform_def js_def)
  have m: "serviceFailure \<noteq> Error API_KEY_MISSING"
    by (simp add: serviceFailure_def API_KEY_MISSING_def js_def)
  have n: "js ''la'' \<noteq> []" "\<not> isSupported (js ''la'')"
      "detectedLangName keyedPlatform (js ''la'') = js ''La''"
    by (simp_all add: isSupported_def languageCodes_def supportedLanguages_def
        objectPrototypeKeys_def detectedLangName_def keyedPlatform_def examplePlatform_def
        js_def)
  have s: "trim (js ''Salve'') \<noteq> []"
    by (simp add: trim_def isWhiteSpace_def js_def)
  have a: "alert (fst (getTranslation keyedPlatform
                   (closureOf (changeInputText (js ''Salve'') initialApp)) (js ''Salve'')
                   (Responds latinAnswer) (changeInputText (js ''Salve'') initialApp, None)))
             = Some [Span (unsupportedMessage (js ''La''))]"
    by (simp add: getTranslation_def getTranslation_begin_def s r getTranslation_resume_def
        onResult_def Let_def n alert_def)
  have b: "renderError (fst (getTranslation2 keyedPlatform
                   (closureOf (changeInputText (js ''Salve'') initialApp)) (js ''Salve'')
                   (Responds latinAnswer) (changeInputText (js ''Salve'') initialApp2, None)))
             = Some [Span (unsupportedMessage (js ''La'')),
                     retryButton (\<lparr>c_sourceLang = js ''pt'', c_targetLang = js ''en'',
                                    c_inputText = js ''Salve''\<rparr>, js ''Salve'')]"
    by (simp add: getTranslation2_def getTranslation2_begin_def s r getTranslation2_resume_def
        onResult2_def Let_def n renderError_def messages_nonempty closureOf_def
        changeInputText_def initialApp2_def)
  have c: "session.truncate (changeInputText (js ''Salve'') initialApp)
             = session.truncate (changeInputText (js ''Salve'') initialApp2)"
    by (simp add: session.truncate_def changeInputText_def initialApp_def initialApp2_def)
  have d: "alert (changeInputText (js ''Adios'')
        (fst (getTranslation keyedPlatform
                (closureOf (changeInputText (js ''Hola'') initialApp)) (js ''Hola'')
                (Rejects Thrown_Other) (changeInputText (js ''Hola'') initialApp, None))))
     = Some [Span failureMessage,
             retryButton (\<lparr>c_sourceLang = js ''pt'', c_targetLang = js ''en'',
                            c_inputText = js ''Hola''\<rparr>, js ''Hola'')]"
    using m
    by (simp add: getTranslation_def getTranslation_begin_def trim_Hola f
        getTranslation_resume_def onError_def alert_def closureOf_def changeInputText_def
        initialApp_def serviceFailure_def retryButton_def split: jsError.splits)
  have e: "renderError (changeInputText (js ''Adios'')
        (fst (getTranslation2 keyedPlatform
                (closureOf (changeInputText (js ''Hola'') initialApp)) (js ''Hola'')
                (Rejects Thrown_Other) (changeInputText (js ''Hola'') initialApp2, None))))
     = Some [Span failureMessage,
             retryButton (\<lparr>c_sourceLang = js ''pt'', c_targetLang = js ''en'',
                            c_inputText = js ''Adios''\<rparr>, js ''Adios'')]"
    using m
    by (simp add: getTranslation2_def getTranslation2_begin_def trim_Hola f
        getTranslation2_resume_def onError2_def renderError_def closureOf_def
        changeInputText_def initialApp2_def serviceFailure_def messages_nonempty
        split: jsError.splits)
  show ?thesis unfolding a b d e using c by simp
qed

section \<open>Debounce\<close>




section \<open>Manual swap: properties\<close>

text \<open>
  C6. In every state the manual swap exchanges \<open>sourceLang\<close> with \<open>targetLang\<close> and
  \<open>inputText\<close> with \<open>translatedText\<close> in one state transition, and touches nothing
  else. In particular from source pt, target en, input "Ola" with an acute accent
  on the a (code unit E1) and translation "Hello" it gives source en, target pt, input
  "Hello" and translation "Ola" with the accent.
\<close>

theorem swap_exchanges:
  "handleSwapLanguages st =
     st\<lparr>sourceLang := targetLang st, targetLang := sourceLang st,
        inputText := translatedText st, translatedText := inputText st\<rparr>
   \<and> handleSwapLanguages
       \<lparr>sourceLang = js ''pt'', targetLang = js ''en'', inputText = js ''Ol'' @ [0xE1],
        translatedText = js ''Hello'', isLoading = l, previousSourceLang = p, error = e\<rparr>
     = \<lparr>sourceLang = js ''en'', targetLang = js ''pt'', inputText = js ''Hello'',
        translatedText = js ''Ol'' @ [0xE1], isLoading = l, previousSourceLang = p,
        error = e\<rparr>"
  by (simp add: handleSwapLanguages_def Let_def)

text \<open>
  C10. The manual swap is an involution in both variants: two swaps, with the render and
  its effect on the ref between them, restore \<open>sourceLang\<close>, \<open>targetLang\<close>,
  \<open>inputText\<close> and \<open>translatedText\<close>; without the ref's effect the whole state is
  restored.
\<close>

theorem swap_involution:
  "handleSwapLanguages (handleSwapLanguages st) = st
   \<and> handleSwapLanguages2 (handleSwapLanguages2 st2) = st2
   \<and> sourceLang (handleSwapLanguages (syncPreviousSourceLang (handleSwapLanguages st)))
       = sourceLang st
   \<and> targetLang (handleSwapLanguages (syncPreviousSourceLang (handleSwapLanguages st)))
       = targetLang st
   \<and> inputText (handleSwapLanguages (syncPreviousSourceLang (handleSwapLanguages st)))
       = inputText st
   \<and> translatedText (handleSwapLanguages (syncPreviousSourceLang (handleSwapLanguages st)))
       = translatedText st
   \<and> sourceLang (handleSwapLanguages2 (syncPreviousSourceLang (handleSwapLanguages2 st2)))
       = sourceLang st2
   \<and> targetLang (handleSwapLanguages2 (syncPreviousSourceLang (handleSwapLanguages2 st2)))
       = targetLang st2
   \<and> inputText (handleSwapLanguages2 (syncPreviousSourceLang (handleSwapLanguages2 st2)))
       = inputText st2
   \<and> translatedText (handleSwapLanguages2 (syncPreviousSourceLang (handleSwapLanguages2 st2)))
       = translatedText st2"
  by (simp add: handleSwapLanguages_def handleSwapLanguages2_def syncPreviousSourceLang_def
      Let_def)

end
